theory Spec2Isabelle
  imports Complex_Main "HOL-Library.List_Lexorder" "HOL-Library.Char_ord"
begin

section \<open>Numbers, vectors and the helpers of the drawing backend\<close>

text \<open>
  JavaScript numbers are modelled as real numbers: the formulas of the layout and of the
  per-frame update are the ones of the source, without rounding, NaN or infinities.
  A value that may be \<^verbatim>\<open>undefined\<close> in the source is an \<open>option\<close>.
\<close>

record vec3 =
  vx :: real
  vy :: real
  vz :: real

record euler =
  ex :: real
  ey :: real
  ez :: real

text \<open>\<^verbatim>\<open>THREE.MathUtils.clamp(value, min, max)\<close> of three.js:
  \<^verbatim>\<open>Math.max(min, Math.min(max, value))\<close>.\<close>

definition clamp :: "real \<Rightarrow> real \<Rightarrow> real \<Rightarrow> real" where
  "clamp v lo hi = max lo (min hi v)"

text \<open>\<^verbatim>\<open>clampValue\<close> of App.tsx: \<^verbatim>\<open>Math.min(max, Math.max(min, v))\<close>.\<close>

definition clampValue :: "real \<Rightarrow> real \<Rightarrow> real \<Rightarrow> real" where
  "clampValue v lo hi = min hi (max lo v)"

text \<open>The operator \<^verbatim>\<open>a ?? d\<close>: the default \<open>d\<close> when \<open>a\<close> is undefined.\<close>

definition nullish :: "'a option \<Rightarrow> 'a \<Rightarrow> 'a" where
  "nullish a d = (case a of None \<Rightarrow> d | Some v \<Rightarrow> v)"

section \<open>Photo transforms: the clamps of \<^verbatim>\<open>usePhotoTexture\<close> and of the save path\<close>

text \<open>
  \<^verbatim>\<open>type PhotoTransform = { scale: number; offset: { x: number; y: number } }\<close>.
  The values come from persisted storage, so every field may be missing at run time; the
  source reads them as \<^verbatim>\<open>transform?.scale ?? 1\<close> and \<^verbatim>\<open>transform?.offset?.x ?? 0\<close>.
\<close>

record Offset =
  off_x :: "real option"
  off_y :: "real option"

record PhotoTransform =
  pt_scale :: "real option"
  pt_offset :: "Offset option"

definition safeScale :: "PhotoTransform option \<Rightarrow> real" where
  "safeScale transform = clamp (nullish (Option.bind transform pt_scale) 1) 0.5 2.5"

definition ox :: "PhotoTransform option \<Rightarrow> real" where
  "ox transform =
     clamp (nullish (Option.bind (Option.bind transform pt_offset) off_x) 0) (- 0.6) 0.6"

definition oy :: "PhotoTransform option \<Rightarrow> real" where
  "oy transform =
     clamp (nullish (Option.bind (Option.bind transform pt_offset) off_y) 0) (- 0.6) 0.6"

text \<open>
  What reaches the canvas in \<^verbatim>\<open>usePhotoTexture\<close>:
  \<^verbatim>\<open>ctx.translate(width / 2 + ox * width, height / 2 + oy * height); ctx.scale(safeScale, safeScale)\<close>.
\<close>

record canvas_draw =
  translate_x :: real
  translate_y :: real
  scale_xy :: real

definition photo_draw :: "real \<Rightarrow> real \<Rightarrow> PhotoTransform option \<Rightarrow> canvas_draw" where
  "photo_draw width height transform =
     \<lparr>translate_x = width / 2 + ox transform * width,
      translate_y = height / 2 + oy transform * height,
      scale_xy = safeScale transform\<rparr>"

text \<open>
  The transform stored by \<^verbatim>\<open>handleSaveSignature\<close> of App.tsx for an image entry, from the
  edited \<^verbatim>\<open>focusScale\<close> and \<^verbatim>\<open>focusOffset\<close>.
\<close>

record StoredTransform =
  st_scale :: real
  st_offset_x :: real
  st_offset_y :: real

definition saveFocusTransform :: "real \<Rightarrow> real \<Rightarrow> real \<Rightarrow> StoredTransform" where
  "saveFocusTransform focusScale focusOffsetX focusOffsetY =
     \<lparr>st_scale = clampValue focusScale 0.5 2.5,
      st_offset_x = clampValue focusOffsetX (- 0.6) 0.6,
      st_offset_y = clampValue focusOffsetY (- 0.6) 0.6\<rparr>"

section \<open>The spatial distributor: the \<^verbatim>\<open>data\<close> memo of \<^verbatim>\<open>Ornaments\<close>\<close>

datatype ornament_type = BALL | BOX | STAR | CANDY | CRYSTAL | PHOTO

record OrnamentData =
  chaosPos :: vec3
  targetPos :: vec3
  rotation :: euler
  color :: "string option"
  targetScale :: vec3
  chaosScale :: vec3
  chaosTilt :: real

text \<open>\<^verbatim>\<open>Vector3.multiplyScalar\<close> and \<^verbatim>\<open>Vector3.lerpVectors\<close> of three.js.\<close>

definition multiplyScalar :: "vec3 \<Rightarrow> real \<Rightarrow> vec3" where
  "multiplyScalar v s = \<lparr>vx = vx v * s, vy = vy v * s, vz = vz v * s\<rparr>"

definition lerpVectors :: "vec3 \<Rightarrow> vec3 \<Rightarrow> real \<Rightarrow> vec3" where
  "lerpVectors v1 v2 alpha =
     \<lparr>vx = vx v1 + (vx v2 - vx v1) * alpha,
      vy = vy v1 + (vy v2 - vy v1) * alpha,
      vz = vz v1 + (vz v2 - vz v1) * alpha\<rparr>"

definition getTypeOffsetIndex :: "ornament_type \<Rightarrow> real" where
  "getTypeOffsetIndex type =
     (case type of BALL \<Rightarrow> 0 | BOX \<Rightarrow> 1 | STAR \<Rightarrow> 2 | CANDY \<Rightarrow> 3 | CRYSTAL \<Rightarrow> 4 | PHOTO \<Rightarrow> 5)"

definition goldenAngle :: real where
  "goldenAngle = pi * (3 - sqrt 5)"

definition treeHeight :: real where
  "treeHeight = 18"

definition treeRadiusBase :: real where
  "treeRadiusBase = 7.5"

definition apexY :: real where
  "apexY = 9"

definition angleOffset :: "ornament_type \<Rightarrow> real" where
  "angleOffset type = getTypeOffsetIndex type * (pi * 2 / 6)"

text \<open>
  The values computed at the head of the loop body for index \<open>i\<close>. The divisor is the
  \<^verbatim>\<open>count\<close> prop; the source never divides by a zero count when the caller passes
  the number of slots, and a zero divisor (Infinity in the source) is outside this model.
\<close>

definition progress :: "nat \<Rightarrow> nat \<Rightarrow> real" where
  "progress i count = sqrt ((real i + 1) / real count) * 0.9"

definition radius_r :: "nat \<Rightarrow> nat \<Rightarrow> real" where
  "radius_r i count = progress i count * treeRadiusBase"

definition height_y :: "nat \<Rightarrow> nat \<Rightarrow> real" where
  "height_y i count = apexY - progress i count * treeHeight"

definition theta :: "ornament_type \<Rightarrow> nat \<Rightarrow> real" where
  "theta type i = real i * goldenAngle + angleOffset type"

definition pushOut :: "ornament_type \<Rightarrow> real" where
  "pushOut type = (if type = STAR \<or> type = PHOTO then 1.15 else 1.08)"

definition tPos :: "ornament_type \<Rightarrow> nat \<Rightarrow> nat \<Rightarrow> vec3" where
  "tPos type count i =
     multiplyScalar
       \<lparr>vx = radius_r i count * cos (theta type i),
        vy = height_y i count,
        vz = radius_r i count * sin (theta type i)\<rparr>
       (pushOut type)"

text \<open>
  The results of the calls of \<^verbatim>\<open>Math.random()\<close> and of \<^verbatim>\<open>randomVector3(25)\<close> in one
  iteration are inputs of the model, one field per call site in source order.
  \<^verbatim>\<open>randomVector3\<close> belongs to utils/math, which is not among the sources: only its
  result appears here.
\<close>

record draws =
  d_chaos :: vec3
  d_color :: real
  d_randScale :: real
  d_box_x :: real
  d_box_y :: real
  d_box_z :: real
  d_photoScale :: real
  d_rot_x :: real
  d_rot_y :: real

definition photoChaosPos :: "nat \<Rightarrow> nat \<Rightarrow> vec3" where
  "photoChaosPos count i =
     \<lparr>vx = 18 * cos (real i * goldenAngle),
      vy = ((real i / real count) - 0.5) * 12,
      vz = 18 * sin (real i * goldenAngle)\<rparr>"

definition cPos :: "ornament_type \<Rightarrow> nat \<Rightarrow> draws \<Rightarrow> nat \<Rightarrow> vec3" where
  "cPos type count d i = (if type = PHOTO then photoChaosPos count i else d_chaos d)"

definition chaosTilt_of :: "ornament_type \<Rightarrow> nat \<Rightarrow> real" where
  "chaosTilt_of type i = (if type = PHOTO then (real (i mod 5) - 2) * 0.15 else 0)"

text \<open>\<^verbatim>\<open>colors ? colors[Math.floor(Math.random() * colors.length)] : '#ffffff'\<close>;
  an index outside the array reads \<^verbatim>\<open>undefined\<close>.\<close>

definition colorHex :: "string list option \<Rightarrow> draws \<Rightarrow> string option" where
  "colorHex colors d =
     (case colors of
        None \<Rightarrow> Some ''#ffffff''
      | Some cs \<Rightarrow>
          (let k = \<lfloor>d_color d * real (length cs)\<rfloor>
           in if 0 \<le> k \<and> k < int (length cs) then Some (cs ! nat k) else None))"

definition baseScaleVec :: "ornament_type \<Rightarrow> draws \<Rightarrow> vec3" where
  "baseScaleVec type d =
     (if type = CANDY then \<lparr>vx = 0.7, vy = 0.7, vz = 0.7\<rparr>
      else if type = CRYSTAL then \<lparr>vx = 0.6, vy = 0.6, vz = 0.6\<rparr>
      else if type = STAR then \<lparr>vx = 0.7, vy = 0.7, vz = 0.7\<rparr>
      else if type = BOX then
        \<lparr>vx = 1.0 + d_box_x d * 0.3, vy = 0.7 + d_box_y d * 0.4, vz = 1.0 + d_box_z d * 0.3\<rparr>
      else \<lparr>vx = 1, vy = 1, vz = 1\<rparr>)"

definition randScale :: "draws \<Rightarrow> real" where
  "randScale d = d_randScale d * 0.4 + 0.8"

definition targetScale_of :: "ornament_type \<Rightarrow> real \<Rightarrow> draws \<Rightarrow> vec3" where
  "targetScale_of type scale d = multiplyScalar (baseScaleVec type d) (scale * randScale d)"

definition chaosScale_of :: "ornament_type \<Rightarrow> real \<Rightarrow> draws \<Rightarrow> vec3" where
  "chaosScale_of type scale d =
     (if type = PHOTO
      then multiplyScalar (targetScale_of type scale d) (3.5 + d_photoScale d * 1.5)
      else targetScale_of type scale d)"

text \<open>One iteration of the loop: the item pushed for index \<open>i\<close>.\<close>

definition ornament_item ::
  "ornament_type \<Rightarrow> nat \<Rightarrow> string list option \<Rightarrow> real \<Rightarrow> draws \<Rightarrow> nat \<Rightarrow> OrnamentData" where
  "ornament_item type count colors scale d i =
     \<lparr>chaosPos = cPos type count d i,
      targetPos = tPos type count i,
      rotation = \<lparr>ex = d_rot_x d * pi, ey = d_rot_y d * pi, ez = 0\<rparr>,
      color = colorHex colors d,
      targetScale = targetScale_of type scale d,
      chaosScale = chaosScale_of type scale d,
      chaosTilt = chaosTilt_of type i\<rparr>"

text \<open>
  \<^verbatim>\<open>photoCount\<close> and \<^verbatim>\<open>total\<close> of the component; \<open>nPhotos\<close> stands for
  \<^verbatim>\<open>userImages.length + customCards.length\<close>. The loop runs over
  \<open>i = 0, ..., total - 1\<close>; \<open>rnd i\<close> are the random draws of iteration \<open>i\<close>.
\<close>

definition photoCount :: "ornament_type \<Rightarrow> nat \<Rightarrow> nat \<Rightarrow> nat" where
  "photoCount type count nPhotos = (if type = PHOTO then nPhotos else count)"

definition total :: "ornament_type \<Rightarrow> nat \<Rightarrow> nat \<Rightarrow> nat" where
  "total type count nPhotos = (if type = PHOTO then photoCount type count nPhotos else count)"

definition ornaments_data ::
  "ornament_type \<Rightarrow> nat \<Rightarrow> nat \<Rightarrow> string list option \<Rightarrow> real \<Rightarrow> (nat \<Rightarrow> draws) \<Rightarrow> OrnamentData list" where
  "ornaments_data type count nPhotos colors scale rnd =
     map (\<lambda>i. ornament_item type count colors scale (rnd i) i) [0..<total type count nPhotos]"

section \<open>Interpolation state and the per-frame update of each primitive\<close>

text \<open>
  Modelled from the spec: \<^verbatim>\<open>lerp\<close> is imported from utils/math, which is not among the
  sources. The spec gives the value computed by \<^verbatim>\<open>lerp(current, target, k\<cdot>\<Delta>t)\<close> as
  \<^verbatim>\<open>current + (target - current) \<cdot> clamp(k\<cdot>\<Delta>t, 0, 1)\<close>.
\<close>

definition lerp :: "real \<Rightarrow> real \<Rightarrow> real \<Rightarrow> real" where
  "lerp a b t = a + (b - a) * clamp t 0 1"

definition smooth :: "real \<Rightarrow> real" where
  "smooth t = t * t * (3 - 2 * t)"

text \<open>\<^verbatim>\<open>THREE.MathUtils.mapLinear(x, a1, a2, b1, b2)\<close> and \<^verbatim>\<open>Vector3.distanceTo\<close> of three.js.\<close>

definition mapLinear :: "real \<Rightarrow> real \<Rightarrow> real \<Rightarrow> real \<Rightarrow> real \<Rightarrow> real" where
  "mapLinear x a1 a2 b1 b2 = b1 + (x - a1) * (b2 - b1) / (a2 - a1)"

definition distanceTo :: "vec3 \<Rightarrow> vec3 \<Rightarrow> real" where
  "distanceTo a b = sqrt ((vx a - vx b)\<^sup>2 + (vy a - vy b)\<^sup>2 + (vz a - vz b)\<^sup>2)"

text \<open>
  The orientation an object is left with after a frame: the Euler angles copied from the
  slot (with the tumbling increments), or the result of \<^verbatim>\<open>lookAt(p)\<close>, possibly followed
  by \<^verbatim>\<open>rotateZ(a)\<close> or \<^verbatim>\<open>rotateY(a)\<close>. The rotation matrices themselves belong to the
  drawing backend.
\<close>

datatype orientation =
    EulerRotation euler
  | LookAt vec3
  | LookAtRotateZ vec3 real
  | LookAtRotateY vec3 real

record mesh_state =
  currentMix :: real
  position :: vec3
  orient :: orientation
  mscale :: vec3

record photo_state = mesh_state +
  innerRotZ :: real
  emissiveIntensity :: real

text \<open>The inputs of a frame that come from the renderer: \<^verbatim>\<open>state.viewport.width\<close>,
  \<^verbatim>\<open>state.camera.position\<close>, and the transform of the parent group, which
  \<^verbatim>\<open>getWorldPosition\<close> applies to the local position.\<close>

record frame_env =
  viewport_width :: real
  camera_position :: vec3
  parent_world :: "vec3 \<Rightarrow> vec3"

subsection \<open>\<^verbatim>\<open>OrnamentMesh\<close>: ball, star, candy, crystal\<close>

text \<open>
  At mount: \<^verbatim>\<open>useRef(mixFactor)\<close>, the JSX rotation \<^verbatim>\<open>item.rotation\<close>, and the layout
  effect that sets position and scale from \<^verbatim>\<open>smooth(currentMixRef.current)\<close>.
\<close>

definition OrnamentMesh_mount :: "OrnamentData \<Rightarrow> real \<Rightarrow> mesh_state" where
  "OrnamentMesh_mount item mixFactor =
     (let t = smooth mixFactor
      in \<lparr>currentMix = mixFactor,
          position = lerpVectors (chaosPos item) (targetPos item) t,
          orient = EulerRotation (rotation item),
          mscale = lerpVectors (chaosScale item) (targetScale item) t\<rparr>)"

definition tumble :: "euler \<Rightarrow> real \<Rightarrow> real \<Rightarrow> euler" where
  "tumble r t delta =
     (if t < 0.5 then r\<lparr>ex := ex r + delta * 0.5, ey := ey r + delta * 0.5\<rparr> else r)"

text \<open>\<open>refs\<close> is false when \<^verbatim>\<open>meshRef.current\<close> or \<^verbatim>\<open>materialRef.current\<close> is null:
  the frame callback then returns at once.\<close>

definition OrnamentMesh_useFrame ::
  "bool \<Rightarrow> OrnamentData \<Rightarrow> real \<Rightarrow> ornament_type \<Rightarrow> real \<Rightarrow> mesh_state \<Rightarrow> mesh_state" where
  "OrnamentMesh_useFrame refs item mixFactor type delta st =
     (if \<not> refs then st
      else
        let speed = 0.9 * delta;
            cm = lerp (currentMix st) mixFactor speed;
            t = smooth cm;
            currentPos = lerpVectors (chaosPos item) (targetPos item) t;
            axis = \<lparr>vx = 0, vy = vy currentPos, vz = 0\<rparr>;
            rot = (if type = STAR \<and> t > 0.8 then LookAtRotateZ axis (pi / 2)
                   else if type = CRYSTAL \<and> t > 0.8 then LookAt axis
                   else EulerRotation (tumble (rotation item) t delta));
            currentScale = lerpVectors (chaosScale item) (targetScale item) t
        in \<lparr>currentMix = cm, position = currentPos, orient = rot, mscale = currentScale\<rparr>)"

subsection \<open>\<^verbatim>\<open>GiftBoxMesh\<close>: box\<close>


definition GiftBoxMesh_useFrame ::
  "bool \<Rightarrow> OrnamentData \<Rightarrow> real \<Rightarrow> real \<Rightarrow> mesh_state \<Rightarrow> mesh_state" where
  "GiftBoxMesh_useFrame refs item mixFactor delta st =
     (if \<not> refs then st
      else
        let speed = 0.9 * delta;
            cm = lerp (currentMix st) mixFactor speed;
            t = smooth cm;
            vecPos = lerpVectors (chaosPos item) (targetPos item) t;
            vecScale = lerpVectors (chaosScale item) (targetScale item) t
        in \<lparr>currentMix = cm, position = vecPos,
            orient = EulerRotation (tumble (rotation item) t delta), mscale = vecScale\<rparr>)"

subsection \<open>\<^verbatim>\<open>PhotoFrameMesh\<close>: photo and card\<close>

text \<open>At mount: \<^verbatim>\<open>useRef(1)\<close>, whatever the \<^verbatim>\<open>mixFactor\<close> prop is.\<close>

definition PhotoFrameMesh_mount :: "real \<Rightarrow> photo_state" where
  "PhotoFrameMesh_mount mixFactor =
     \<lparr>currentMix = 1,
      position = \<lparr>vx = 0, vy = 0, vz = 0\<rparr>,
      orient = EulerRotation \<lparr>ex = 0, ey = 0, ez = 0\<rparr>,
      mscale = \<lparr>vx = 1, vy = 1, vz = 1\<rparr>,
      innerRotZ = 0,
      emissiveIntensity = 0.25\<rparr>"

text \<open>
  \<^verbatim>\<open>Math.pow(tRaw, 0.6)\<close> is \<open>tRaw powr 0.6\<close>. The source yields NaN for a negative
  \<open>tRaw\<close>; that does not arise while the mix and its target stay in [0, 1].
  \<open>refs\<close> is false when \<^verbatim>\<open>groupRef.current\<close> or \<^verbatim>\<open>innerRef.current\<close> is null, and
  \<open>photoMat\<close> is false when \<^verbatim>\<open>photoMatRef.current\<close> is null.
\<close>

definition PhotoFrameMesh_useFrame ::
  "bool \<Rightarrow> bool \<Rightarrow> frame_env \<Rightarrow> OrnamentData \<Rightarrow> real \<Rightarrow> real \<Rightarrow> photo_state \<Rightarrow> photo_state" where
  "PhotoFrameMesh_useFrame refs photoMat env item mixFactor delta st =
     (if \<not> refs then st
      else
        let speed = 0.8 * delta;
            tRaw = lerp (currentMix st) mixFactor speed;
            t = tRaw powr 0.6;
            vecPos = lerpVectors (chaosPos item) (targetPos item) t;
            vecScale0 = lerpVectors (chaosScale item) (targetScale item) t;
            isSmallScreen = (viewport_width env < 22);
            responsiveBaseScale = (if isSmallScreen then 0.6 else 1.0);
            vecScale1 = multiplyScalar vecScale0 responsiveBaseScale;
            effectStrength = 1.0 - t;
            distToCamera = distanceTo (parent_world env vecPos) (camera_position env);
            maxZoom = (if isSmallScreen then 1.1 else 1.5);
            minZoom = 0.6;
            perspectiveFactor = mapLinear distToCamera 10 60 maxZoom minZoom;
            dynamicScale = lerp 1.0 perspectiveFactor effectStrength;
            vecScale = (if t < 0.99 then multiplyScalar vecScale1 dynamicScale else vecScale1);
            brightness = mapLinear distToCamera 12 50 0.9 0.2;
            emissive = (if \<not> photoMat then emissiveIntensity st
                        else if t < 0.99 then max 0.2 brightness * effectStrength
                        else 0.25)
        in (if t > 0.8
            then \<lparr>currentMix = tRaw, position = vecPos,
                  orient = LookAtRotateY \<lparr>vx = 0, vy = vy vecPos, vz = 0\<rparr> pi,
                  mscale = vecScale,
                  innerRotZ = lerp (innerRotZ st) 0 speed,
                  emissiveIntensity = emissive\<rparr>
            else \<lparr>currentMix = tRaw, position = vecPos,
                  orient = LookAt (camera_position env),
                  mscale = vecScale,
                  innerRotZ = lerp (innerRotZ st) (chaosTilt item) speed,
                  emissiveIntensity = emissive\<rparr>))"

subsection \<open>\<^verbatim>\<open>SpiralLights\<close>: the mix of the light strand\<close>


definition SpiralLights_useFrame :: "bool \<Rightarrow> real \<Rightarrow> real \<Rightarrow> real \<Rightarrow> real" where
  "SpiralLights_useFrame refs mixFactor delta cur =
     (if \<not> refs then cur else let speed = 2.0 * delta in lerp cur mixFactor speed)"

subsection \<open>Click to focus\<close>

datatype entry_kind = KImage | KCard

text \<open>\<^verbatim>\<open>PhotoEntry\<close> without its texture objects, which belong to the drawing backend.\<close>

record PhotoEntry =
  pe_key :: string
  pe_kind :: entry_kind
  pe_url :: "string option"
  pe_message :: "string option"
  pe_signatureText :: "string option"
  pe_id :: "string option"
  pe_cacheKey :: "string option"
  pe_transform :: "PhotoTransform option"
  pe_editable :: "bool option"

record screen_pos =
  screen_x :: real
  screen_y :: real

text \<open>
  \<^verbatim>\<open>onPointerDown\<close> of \<^verbatim>\<open>PhotoFrameMesh\<close>: the call made to \<^verbatim>\<open>onFocus\<close>, if any.
  \<open>onFocus\<close> tells whether the callback prop is present, \<open>groupWorld\<close> is the world
  position of the group when \<^verbatim>\<open>groupRef.current\<close> is attached, and \<open>project\<close> is
  \<^verbatim>\<open>Vector3.project(e.camera)\<close>.
\<close>

definition PhotoFrameMesh_onPointerDown ::
  "bool \<Rightarrow> PhotoEntry option \<Rightarrow> real \<Rightarrow> vec3 option \<Rightarrow> (vec3 \<Rightarrow> vec3) \<Rightarrow> real \<Rightarrow> real
     \<Rightarrow> real \<Rightarrow> real \<Rightarrow> (PhotoEntry \<times> screen_pos) option" where
  "PhotoFrameMesh_onPointerDown onFocus entry mixFactor groupWorld project innerWidth innerHeight
       clientX clientY =
     (case entry of
        None \<Rightarrow> None
      | Some e \<Rightarrow>
          if onFocus \<and> mixFactor < 0.25 then
            (case groupWorld of
               Some worldVec \<Rightarrow>
                 let projVec = project worldVec;
                     sx = (vx projVec * 0.5 + 0.5) * innerWidth;
                     sy = (vy projVec * (- 0.5) + 0.5) * innerHeight
                 in Some (e, \<lparr>screen_x = sx, screen_y = sy\<rparr>)
             | None \<Rightarrow> Some (e, \<lparr>screen_x = clientX, screen_y = clientY\<rparr>))
          else None)"

record FocusMedia =
  fm_kind :: entry_kind
  fm_url :: "string option"
  fm_message :: "string option"
  fm_signature :: "string option"
  fm_id :: "string option"
  fm_cacheKey :: "string option"
  fm_editable :: "bool option"

text \<open>\<^verbatim>\<open>emitFocus\<close> of \<^verbatim>\<open>Ornaments\<close>: the call made to the host's \<^verbatim>\<open>onFocusMedia\<close>,
  if the host supplied one.\<close>

definition emitFocus :: "bool \<Rightarrow> PhotoEntry \<Rightarrow> screen_pos option \<Rightarrow> (FocusMedia \<times> screen_pos option) option" where
  "emitFocus onFocusMedia entry origin =
     (if \<not> onFocusMedia then None
      else Some (\<lparr>fm_kind = pe_kind entry, fm_url = pe_url entry, fm_message = pe_message entry,
                  fm_signature = pe_signatureText entry, fm_id = pe_id entry,
                  fm_cacheKey = pe_cacheKey entry, fm_editable = pe_editable entry\<rparr>, origin))"

text \<open>A click on a photo frame rendered by \<^verbatim>\<open>Ornaments\<close>, which passes \<^verbatim>\<open>emitFocus\<close> as
  \<^verbatim>\<open>onFocus\<close>: what the host callback receives.\<close>

definition photo_click ::
  "bool \<Rightarrow> PhotoEntry option \<Rightarrow> real \<Rightarrow> vec3 option \<Rightarrow> (vec3 \<Rightarrow> vec3) \<Rightarrow> real \<Rightarrow> real
     \<Rightarrow> real \<Rightarrow> real \<Rightarrow> (FocusMedia \<times> screen_pos option) option" where
  "photo_click onFocusMedia entry mixFactor groupWorld project innerWidth innerHeight clientX clientY =
     (case PhotoFrameMesh_onPointerDown True entry mixFactor groupWorld project innerWidth
             innerHeight clientX clientY of
        None \<Rightarrow> None
      | Some (e, origin) \<Rightarrow> emitFocus onFocusMedia e (Some origin))"

section \<open>Example inputs\<close>

definition draws_a :: draws where
  "draws_a = \<lparr>d_chaos = \<lparr>vx = 3, vy = - 4, vz = 12\<rparr>, d_color = 0, d_randScale = 1/2,
              d_box_x = 0, d_box_y = 0, d_box_z = 0, d_photoScale = 0, d_rot_x = 0, d_rot_y = 0\<rparr>"

definition draws_b :: draws where
  "draws_b = \<lparr>d_chaos = \<lparr>vx = 3, vy = - 4, vz = 12\<rparr>, d_color = 0, d_randScale = 1/2,
              d_box_x = 0, d_box_y = 0, d_box_z = 0, d_photoScale = 0, d_rot_x = 1/2, d_rot_y = 0\<rparr>"

definition same_draws :: "nat \<Rightarrow> draws" where
  "same_draws i = draws_a"

definition ball_item :: OrnamentData where
  "ball_item = ornament_item BALL 1 None 1 draws_a 0"

definition star_item :: OrnamentData where
  "star_item = ornament_item STAR 1 None 1 draws_a 0"

definition photo_item :: OrnamentData where
  "photo_item = ornament_item PHOTO 1 None 1 draws_a 0"

definition flat_project :: "vec3 \<Rightarrow> vec3" where
  "flat_project v = v"

definition desktop_env :: frame_env where
  "desktop_env = \<lparr>viewport_width = 30, camera_position = \<lparr>vx = 0, vy = 4, vz = 20\<rparr>,
                  parent_world = flat_project\<rparr>"

definition card_entry :: PhotoEntry where
  "card_entry = \<lparr>pe_key = ''card-1'', pe_kind = KCard, pe_url = None, pe_message = Some ''hi'',
                 pe_signatureText = Some [], pe_id = Some ''1'', pe_cacheKey = None,
                 pe_transform = None, pe_editable = Some False\<rparr>"

section \<open>Loading a photo texture: \<^verbatim>\<open>loadImageElement\<close> and \<^verbatim>\<open>usePhotoTexture\<close>\<close>

text \<open>
  A rejected promise or a thrown exception is the left summand of a sum type. The network
  and the decoder are inputs: what \<^verbatim>\<open>new Image()\<close> does with a source, what
  \<^verbatim>\<open>fetch\<close> answers, and whether the canvas gives a 2D context.
\<close>

datatype load_failure =
    ImageError
  | FetchRejected
  | FetchStatus nat
  | BlobError
  | NoCanvasCtx

record image_element =
  naturalWidth :: nat
  naturalHeight :: nat
  videoWidth :: "nat option"
  videoHeight :: "nat option"
  el_width :: nat
  el_height :: nat

record response =
  res_ok :: bool
  res_status :: nat
  res_blob :: "load_failure + string"

record load_env =
  fromUrl :: "string \<Rightarrow> load_failure + image_element"
  fetch :: "string \<Rightarrow> load_failure + response"
  blob_url :: "string \<Rightarrow> string"
  canvas_ctx :: bool

definition loadImageElement :: "load_env \<Rightarrow> string \<Rightarrow> load_failure + image_element" where
  "loadImageElement env url =
     (case fromUrl env url of
        Inr img \<Rightarrow> Inr img
      | Inl firstErr \<Rightarrow>
          (case fetch env url of
             Inl fetchErr \<Rightarrow> Inl fetchErr
           | Inr res \<Rightarrow>
               if \<not> res_ok res then Inl (FetchStatus (res_status res))
               else
                 (case res_blob res of
                    Inl fetchErr \<Rightarrow> Inl fetchErr
                  | Inr blob \<Rightarrow>
                      (case fromUrl env (blob_url env blob) of
                         Inr img \<Rightarrow> Inr img
                       | Inl fetchErr \<Rightarrow> Inl fetchErr))))"

text \<open>What a \<^verbatim>\<open>THREE.CanvasTexture\<close> shows: the photo drawn with its transform, the
  label of the placeholder, or nothing when the canvas gave no context.\<close>

datatype canvas_content =
    Photo image_element canvas_draw
  | Label string
  | Blank

record texture =
  tex_width :: nat
  tex_height :: nat
  tex_content :: canvas_content

text \<open>The label of the placeholder, four Chinese characters meaning that loading failed,
  as UTF-8 bytes.\<close>

definition fallback_label :: string where
  "fallback_label =
     map char_of [0xE5, 0x8A, 0xA0, 0xE8, 0xBD, 0xBD, 0xE5, 0xA4, 0xB1, 0xE8, 0xB4, 0xA5 :: nat]"

definition createFallbackTexture :: "bool \<Rightarrow> string \<Rightarrow> texture" where
  "createFallbackTexture ctx label_text =
     \<lparr>tex_width = 512, tex_height = 640,
      tex_content = (if ctx then Label label_text else Blank)\<rparr>"

text \<open>The operator \<^verbatim>\<open>a || b\<close> on numbers: \<open>b\<close> when \<open>a\<close> is 0 or undefined.\<close>

definition or_else :: "nat option \<Rightarrow> nat \<Rightarrow> nat" where
  "or_else a b = (case a of None \<Rightarrow> b | Some n \<Rightarrow> if n = 0 then b else n)"

definition image_width :: "image_element \<Rightarrow> nat" where
  "image_width img =
     or_else (Some (naturalWidth img)) (or_else (videoWidth img) (or_else (Some (el_width img)) 1024))"

definition image_height :: "image_element \<Rightarrow> nat" where
  "image_height img =
     or_else (Some (naturalHeight img))
       (or_else (videoHeight img) (or_else (Some (el_height img)) 1024))"

text \<open>
  The \<^verbatim>\<open>try\<close> block of \<^verbatim>\<open>load\<close>: \<open>Inr (Some tex)\<close> is the call
  \<^verbatim>\<open>setTexture(tex)\<close>, \<open>Inr None\<close> the return without a call. \<open>cancelled\<close> is the
  flag set by the cleanup of the effect, read when the awaited load settles.
\<close>

definition load_try ::
  "load_env \<Rightarrow> string \<Rightarrow> PhotoTransform option \<Rightarrow> bool \<Rightarrow> load_failure + texture option" where
  "load_try env url transform cancelled =
     (case loadImageElement env url of
        Inl err \<Rightarrow> Inl err
      | Inr img \<Rightarrow>
          if cancelled then Inr None
          else
            let width = image_width img;
                height = image_height img
            in if \<not> canvas_ctx env then Inl NoCanvasCtx
               else Inr (Some \<lparr>tex_width = width, tex_height = height,
                                tex_content =
                                  Photo img (photo_draw (real width) (real height) transform)\<rparr>))"

text \<open>The \<^verbatim>\<open>catch\<close> block: a warning is logged, and unless the load was cancelled the
  placeholder is set.\<close>

definition load_catch :: "load_env \<Rightarrow> bool \<Rightarrow> load_failure \<Rightarrow> load_failure + texture option" where
  "load_catch env cancelled err =
     (if cancelled then Inr None
      else Inr (Some (createFallbackTexture (canvas_ctx env) fallback_label)))"

definition load :: "load_env \<Rightarrow> string \<Rightarrow> PhotoTransform option \<Rightarrow> bool \<Rightarrow> load_failure + texture option" where
  "load env url transform cancelled =
     (case load_try env url transform cancelled of
        Inl err \<Rightarrow> load_catch env cancelled err
      | Inr r \<Rightarrow> Inr r)"

text \<open>The texture state of \<^verbatim>\<open>usePhotoTexture\<close> once the load has settled; it starts as
  \<^verbatim>\<open>null\<close> and changes only by \<^verbatim>\<open>setTexture\<close>.\<close>

definition usePhotoTexture :: "load_env \<Rightarrow> string \<Rightarrow> PhotoTransform option \<Rightarrow> bool \<Rightarrow> texture option" where
  "usePhotoTexture env url transform cancelled =
     (case load env url transform cancelled of
        Inr (Some tex) \<Rightarrow> Some tex
      | Inr None \<Rightarrow> None
      | Inl err \<Rightarrow> None)"

text \<open>\<^verbatim>\<open>UserPhotoOrnament\<close> renders nothing without a texture, and a
  \<^verbatim>\<open>PhotoFrameMesh\<close> with the texture otherwise.\<close>

datatype rendered = PhotoFrame texture

definition UserPhotoOrnament :: "load_env \<Rightarrow> string \<Rightarrow> PhotoTransform option \<Rightarrow> bool \<Rightarrow> rendered option" where
  "UserPhotoOrnament env url transform cancelled =
     (case usePhotoTexture env url transform cancelled of
        None \<Rightarrow> None
      | Some tex \<Rightarrow> Some (PhotoFrame tex))"

text \<open>Example: a server that answers 404, so that the image element fails and the
  fetch is not ok.\<close>

definition env_404 :: load_env where
  "env_404 = \<lparr>fromUrl = (\<lambda>u. Inl ImageError),
              fetch = (\<lambda>u. Inr \<lparr>res_ok = False, res_status = 404, res_blob = Inl BlobError\<rparr>),
              blob_url = (\<lambda>b. ''blob:'' @ b),
              canvas_ctx = True\<rparr>"

section \<open>The image cache of utils/idb.ts\<close>

text \<open>
  The object store \<^verbatim>\<open>images\<close> holds \<^verbatim>\<open>ImageRecord\<close> values under string keys. It is
  modelled as the list of its (key, value) pairs in ascending key order, the order in
  which \<^verbatim>\<open>getAll\<close> and \<^verbatim>\<open>getAllKeys\<close> return them. \<open>'b\<close> is the type of blobs.
\<close>

record 'b ImageRecord =
  blob :: 'b
  createdAt :: int

type_synonym 'b image_store = "(string \<times> 'b ImageRecord) list"

datatype idb_error = PutFailed nat | ReadFailed | DeleteFailed

text \<open>
  What the function takes from its surroundings: \<^verbatim>\<open>Date.now()\<close>, the hexadecimal suffix
  \<^verbatim>\<open>Math.random().toString(16).slice(2)\<close> drawn for the file of each index,
  \<^verbatim>\<open>URL.createObjectURL\<close>, and whether the requests of each transaction succeed.
\<close>

record 'b idb_env =
  now :: nat
  random_hex :: "nat \<Rightarrow> string"
  createObjectURL :: "'b \<Rightarrow> string"
  put_ok :: "nat \<Rightarrow> bool"
  read_ok :: bool
  delete_ok :: bool

text \<open>The decimal digits of a number, as a template literal prints it.\<close>

fun decimal :: "nat \<Rightarrow> nat list" where
  "decimal n = (if n < 10 then [n] else decimal (n div 10) @ [n mod 10])"

declare decimal.simps [simp del]

definition digit_char :: "nat \<Rightarrow> char" where
  "digit_char d = char_of (of_char CHR ''0'' + d)"

definition string_of_nat :: "nat \<Rightarrow> string" where
  "string_of_nat n = map digit_char (decimal n)"

text \<open>The key template \<^verbatim>\<open>`${timestamp}-${idx}-${Math.random().toString(16).slice(2)}`\<close>.\<close>

definition image_key :: "nat \<Rightarrow> nat \<Rightarrow> string \<Rightarrow> string" where
  "image_key timestamp idx suffix =
     string_of_nat timestamp @ ''-'' @ string_of_nat idx @ ''-'' @ suffix"

text \<open>\<^verbatim>\<open>store.put(value, key)\<close>: the value under an existing key is replaced.\<close>

fun store_put :: "string \<Rightarrow> 'v \<Rightarrow> (string \<times> 'v) list \<Rightarrow> (string \<times> 'v) list" where
  "store_put k v [] = [(k, v)]"
| "store_put k v ((k', v') # s) =
     (if k < k' then (k, v) # (k', v') # s
      else if k = k' then (k, v) # s
      else (k', v') # store_put k v s)"

text \<open>\<^verbatim>\<open>store.delete(key)\<close> for each key of a list.\<close>

definition store_delete_keys :: "string list \<Rightarrow> (string \<times> 'v) list \<Rightarrow> (string \<times> 'v) list" where
  "store_delete_keys keys s = filter (\<lambda>r. fst r \<notin> set keys) s"

text \<open>
  The write transaction of \<^verbatim>\<open>saveImagesToCacheWithKeys\<close>: one \<^verbatim>\<open>put\<close> per file, in
  order of index. A failing request rejects the promise and aborts the transaction.
\<close>

fun put_files ::
  "'b idb_env \<Rightarrow> nat \<Rightarrow> nat \<Rightarrow> 'b list \<Rightarrow> 'b image_store \<Rightarrow> idb_error + 'b image_store" where
  "put_files env timestamp idx [] s = Inr s"
| "put_files env timestamp idx (file # files) s =
     (if put_ok env idx
      then put_files env timestamp (Suc idx) files
             (store_put (image_key timestamp idx (random_hex env idx))
                \<lparr>blob = file, createdAt = int timestamp + int idx\<rparr> s)
      else Inl (PutFailed idx))"

definition getAllRecords :: "'b idb_env \<Rightarrow> 'b image_store \<Rightarrow> idb_error + (string \<times> 'b ImageRecord) list" where
  "getAllRecords env s = (if read_ok env then Inr s else Inl ReadFailed)"

definition deleteKeys :: "'b idb_env \<Rightarrow> string list \<Rightarrow> 'b image_store \<Rightarrow> idb_error + 'b image_store" where
  "deleteKeys env keys s =
     (if keys = [] then Inr s
      else if delete_ok env then Inr (store_delete_keys keys s)
      else Inl DeleteFailed)"

text \<open>\<^verbatim>\<open>records.sort((a, b) => b.value.createdAt - a.value.createdAt)\<close>: a stable sort,
  newest first.\<close>

definition sort_newest_first :: "(string \<times> 'b ImageRecord) list \<Rightarrow> (string \<times> 'b ImageRecord) list" where
  "sort_newest_first records = sort_key (\<lambda>r. - createdAt (snd r)) records"

text \<open>\<^verbatim>\<open>Array.prototype.slice(start)\<close> and \<^verbatim>\<open>slice(0, end)\<close> for an integer argument:
  a negative argument counts from the end of the array.\<close>

definition slice_from :: "int \<Rightarrow> 'a list \<Rightarrow> 'a list" where
  "slice_from start xs =
     (if start < 0 then drop (nat (max 0 (int (length xs) + start))) xs else drop (nat start) xs)"

definition slice_to :: "int \<Rightarrow> 'a list \<Rightarrow> 'a list" where
  "slice_to end xs =
     (if end < 0 then take (nat (max 0 (int (length xs) + end))) xs else take (nat end) xs)"

text \<open>
  \<^verbatim>\<open>saveImagesToCacheWithKeys(files, limit)\<close>: the store afterwards, and the list the
  promise resolves with or the error it rejects with.
\<close>

definition saveImagesToCacheWithKeys ::
  "'b idb_env \<Rightarrow> 'b list \<Rightarrow> int \<Rightarrow> 'b image_store
     \<Rightarrow> 'b image_store \<times> (idb_error + (string \<times> string) list)" where
  "saveImagesToCacheWithKeys env files limit s =
     (if files = [] then (s, Inr [])
      else
        case put_files env (now env) 0 files s of
          Inl e \<Rightarrow> (s, Inl e)
        | Inr s1 \<Rightarrow>
            (case getAllRecords env s1 of
               Inl e \<Rightarrow> (s1, Inl e)
             | Inr records \<Rightarrow>
                 let sorted = sort_newest_first records;
                     toDelete = map fst (slice_from limit sorted)
                 in (case deleteKeys env toDelete s1 of
                       Inl e \<Rightarrow> (s1, Inl e)
                     | Inr s2 \<Rightarrow>
                         (s2, Inr (map (\<lambda>r. (fst r, createObjectURL env (blob (snd r))))
                                     (slice_to limit sorted))))))"

text \<open>Example: a cache of two images, and an environment in which every request succeeds.\<close>

definition cache_env :: "string idb_env" where
  "cache_env = \<lparr>now = 1700, random_hex = (\<lambda>i. ''a3f''), createObjectURL = (\<lambda>b. ''blob:'' @ b),
                put_ok = (\<lambda>i. True), read_ok = True, delete_ok = True\<rparr>"

definition cache_two :: "string image_store" where
  "cache_two = [(''1500-0-c1'', \<lparr>blob = ''old'', createdAt = 1500\<rparr>),
                (''1600-0-9e'', \<lparr>blob = ''mid'', createdAt = 1600\<rparr>)]"

section \<open>Theorems\<close>

subsection \<open>Photo transforms\<close>

lemma clamp_bounds: "lo \<le> hi \<Longrightarrow> lo \<le> clamp v lo hi \<and> clamp v lo hi \<le> hi"
  by (simp add: clamp_def)

lemma clampValue_bounds: "lo \<le> hi \<Longrightarrow> lo \<le> clampValue v lo hi \<and> clampValue v lo hi \<le> hi"
  by (simp add: clampValue_def)

text \<open>
  Claim C8. Whatever transform is supplied (fields missing or out of range), the scale
  used to draw the photo is the supplied scale clamped to [0.5, 2.5]: a scale within the
  range is used as it is, a smaller one becomes 0.5 and a larger one 2.5, and a missing one
  is 1. Each offset is the supplied offset clamped to [-0.6, 0.6] in the same way, a missing
  one being 0. The canvas receives exactly these clamped values, and the save path stores
  the edited scale and offsets clamped to the same ranges. A scale of 99 is used and stored
  as 2.5, an offset of 5 as 0.6.
\<close>

theorem photo_transform_clamped:
  "1/2 \<le> safeScale transform \<and> safeScale transform \<le> 5/2
   \<and> - (3/5) \<le> ox transform \<and> ox transform \<le> 3/5
   \<and> - (3/5) \<le> oy transform \<and> oy transform \<le> 3/5
   \<and> scale_xy (photo_draw w h transform) = safeScale transform
   \<and> translate_x (photo_draw w h transform) = w / 2 + ox transform * w
   \<and> translate_y (photo_draw w h transform) = h / 2 + oy transform * h
   \<and> 1/2 \<le> st_scale (saveFocusTransform s a b) \<and> st_scale (saveFocusTransform s a b) \<le> 5/2
   \<and> - (3/5) \<le> st_offset_x (saveFocusTransform s a b)
   \<and> st_offset_x (saveFocusTransform s a b) \<le> 3/5
   \<and> - (3/5) \<le> st_offset_y (saveFocusTransform s a b)
   \<and> st_offset_y (saveFocusTransform s a b) \<le> 3/5
   \<and> safeScale (Some \<lparr>pt_scale = Some 99, pt_offset = Some \<lparr>off_x = Some 5, off_y = None\<rparr>\<rparr>) = 5/2
   \<and> ox (Some \<lparr>pt_scale = Some 99, pt_offset = Some \<lparr>off_x = Some 5, off_y = None\<rparr>\<rparr>) = 3/5
   \<and> saveFocusTransform 99 5 0 = \<lparr>st_scale = 5/2, st_offset_x = 3/5, st_offset_y = 0\<rparr>
   \<and> safeScale (Some \<lparr>pt_scale = Some v, pt_offset = off\<rparr>)
       = (if v < 1/2 then 1/2 else if 5/2 < v then 5/2 else v)
   \<and> safeScale (Some \<lparr>pt_scale = None, pt_offset = off\<rparr>) = 1
   \<and> safeScale None = 1
   \<and> ox (Some \<lparr>pt_scale = sc, pt_offset = Some \<lparr>off_x = Some x, off_y = yo\<rparr>\<rparr>)
       = (if x < - (3/5) then - (3/5) else if 3/5 < x then 3/5 else x)
   \<and> ox (Some \<lparr>pt_scale = sc, pt_offset = Some \<lparr>off_x = None, off_y = yo\<rparr>\<rparr>) = 0
   \<and> ox (Some \<lparr>pt_scale = sc, pt_offset = None\<rparr>) = 0
   \<and> ox None = 0
   \<and> oy (Some \<lparr>pt_scale = sc, pt_offset = Some \<lparr>off_x = xo, off_y = Some y\<rparr>\<rparr>)
       = (if y < - (3/5) then - (3/5) else if 3/5 < y then 3/5 else y)
   \<and> oy (Some \<lparr>pt_scale = sc, pt_offset = Some \<lparr>off_x = xo, off_y = None\<rparr>\<rparr>) = 0
   \<and> oy (Some \<lparr>pt_scale = sc, pt_offset = None\<rparr>) = 0
   \<and> oy None = 0
   \<and> photo_draw w h (Some \<lparr>pt_scale = Some v, pt_offset = Some \<lparr>off_x = Some x, off_y = Some y\<rparr>\<rparr>)
       = \<lparr>translate_x = w / 2 + (if x < - (3/5) then - (3/5) else if 3/5 < x then 3/5 else x) * w,
          translate_y = h / 2 + (if y < - (3/5) then - (3/5) else if 3/5 < y then 3/5 else y) * h,
          scale_xy = (if v < 1/2 then 1/2 else if 5/2 < v then 5/2 else v)\<rparr>
   \<and> saveFocusTransform s a b
       = \<lparr>st_scale = (if s < 1/2 then 1/2 else if 5/2 < s then 5/2 else s),
          st_offset_x = (if a < - (3/5) then - (3/5) else if 3/5 < a then 3/5 else a),
          st_offset_y = (if b < - (3/5) then - (3/5) else if 3/5 < b then 3/5 else b)\<rparr>
   \<and> oy (Some \<lparr>pt_scale = Some 99, pt_offset = Some \<lparr>off_x = Some 5, off_y = Some 5\<rparr>\<rparr>) = 3/5
   \<and> oy (Some \<lparr>pt_scale = Some 99, pt_offset = Some \<lparr>off_x = Some 5, off_y = Some (- 7)\<rparr>\<rparr>)
       = - (3/5)
   \<and> safeScale (Some \<lparr>pt_scale = Some (3/2), pt_offset = None\<rparr>) = 3/2
   \<and> safeScale (Some \<lparr>pt_scale = Some (1/10), pt_offset = None\<rparr>) = 1/2"
proof -
  have s: "1/2 \<le> safeScale transform \<and> safeScale transform \<le> 5/2"
    using clamp_bounds [of "0.5" "2.5"] by (simp add: safeScale_def)
  have x: "- (3/5) \<le> ox transform \<and> ox transform \<le> 3/5"
    using clamp_bounds [of "- 0.6" "0.6"] by (simp add: ox_def)
  have y: "- (3/5) \<le> oy transform \<and> oy transform \<le> 3/5"
    using clamp_bounds [of "- 0.6" "0.6"] by (simp add: oy_def)
  have d: "scale_xy (photo_draw w h transform) = safeScale transform
     \<and> translate_x (photo_draw w h transform) = w / 2 + ox transform * w
     \<and> translate_y (photo_draw w h transform) = h / 2 + oy transform * h"
    by (simp add: photo_draw_def)
  have v: "1/2 \<le> st_scale (saveFocusTransform s a b) \<and> st_scale (saveFocusTransform s a b) \<le> 5/2
     \<and> - (3/5) \<le> st_offset_x (saveFocusTransform s a b)
     \<and> st_offset_x (saveFocusTransform s a b) \<le> 3/5
     \<and> - (3/5) \<le> st_offset_y (saveFocusTransform s a b)
     \<and> st_offset_y (saveFocusTransform s a b) \<le> 3/5"
    using clampValue_bounds [of "0.5" "2.5" s] clampValue_bounds [of "- 0.6" "0.6"]
    by (simp add: saveFocusTransform_def)
  have e: "safeScale (Some \<lparr>pt_scale = Some 99, pt_offset = Some \<lparr>off_x = Some 5, off_y = None\<rparr>\<rparr>) = 5/2
     \<and> ox (Some \<lparr>pt_scale = Some 99, pt_offset = Some \<lparr>off_x = Some 5, off_y = None\<rparr>\<rparr>) = 3/5
     \<and> saveFocusTransform 99 5 0 = \<lparr>st_scale = 5/2, st_offset_x = 3/5, st_offset_y = 0\<rparr>"
    by (simp add: safeScale_def ox_def saveFocusTransform_def clamp_def clampValue_def nullish_def)
  have ss: "safeScale (Some \<lparr>pt_scale = Some v, pt_offset = off\<rparr>)
       = (if v < 1/2 then 1/2 else if 5/2 < v then 5/2 else v)
     \<and> safeScale (Some \<lparr>pt_scale = None, pt_offset = off\<rparr>) = 1
     \<and> safeScale None = 1"
    by (auto simp: safeScale_def nullish_def clamp_def)
  have xs: "ox (Some \<lparr>pt_scale = sc, pt_offset = Some \<lparr>off_x = Some x, off_y = yo\<rparr>\<rparr>)
       = (if x < - (3/5) then - (3/5) else if 3/5 < x then 3/5 else x)
     \<and> ox (Some \<lparr>pt_scale = sc, pt_offset = Some \<lparr>off_x = None, off_y = yo\<rparr>\<rparr>) = 0
     \<and> ox (Some \<lparr>pt_scale = sc, pt_offset = None\<rparr>) = 0
     \<and> ox None = 0"
    by (auto simp: ox_def nullish_def clamp_def)
  have ys: "oy (Some \<lparr>pt_scale = sc, pt_offset = Some \<lparr>off_x = xo, off_y = Some y\<rparr>\<rparr>)
       = (if y < - (3/5) then - (3/5) else if 3/5 < y then 3/5 else y)
     \<and> oy (Some \<lparr>pt_scale = sc, pt_offset = Some \<lparr>off_x = xo, off_y = None\<rparr>\<rparr>) = 0
     \<and> oy (Some \<lparr>pt_scale = sc, pt_offset = None\<rparr>) = 0
     \<and> oy None = 0"
    by (auto simp: oy_def nullish_def clamp_def)
  have pd: "photo_draw w h
        (Some \<lparr>pt_scale = Some v, pt_offset = Some \<lparr>off_x = Some x, off_y = Some y\<rparr>\<rparr>)
       = \<lparr>translate_x = w / 2 + (if x < - (3/5) then - (3/5) else if 3/5 < x then 3/5 else x) * w,
          translate_y = h / 2 + (if y < - (3/5) then - (3/5) else if 3/5 < y then 3/5 else y) * h,
          scale_xy = (if v < 1/2 then 1/2 else if 5/2 < v then 5/2 else v)\<rparr>"
    by (auto simp: photo_draw_def safeScale_def ox_def oy_def nullish_def clamp_def)
  have sv: "saveFocusTransform s a b
       = \<lparr>st_scale = (if s < 1/2 then 1/2 else if 5/2 < s then 5/2 else s),
          st_offset_x = (if a < - (3/5) then - (3/5) else if 3/5 < a then 3/5 else a),
          st_offset_y = (if b < - (3/5) then - (3/5) else if 3/5 < b then 3/5 else b)\<rparr>"
    by (auto simp: saveFocusTransform_def clampValue_def)
  have i: "oy (Some \<lparr>pt_scale = Some 99, pt_offset = Some \<lparr>off_x = Some 5, off_y = Some 5\<rparr>\<rparr>) = 3/5
     \<and> oy (Some \<lparr>pt_scale = Some 99, pt_offset = Some \<lparr>off_x = Some 5, off_y = Some (- 7)\<rparr>\<rparr>)
         = - (3/5)
     \<and> safeScale (Some \<lparr>pt_scale = Some (3/2), pt_offset = None\<rparr>) = 3/2
     \<and> safeScale (Some \<lparr>pt_scale = Some (1/10), pt_offset = None\<rparr>) = 1/2"
    by (simp add: safeScale_def oy_def clamp_def nullish_def)
  from s x y d v e ss xs ys pd sv i show ?thesis by blast
qed

subsection \<open>The formed layout\<close>

lemma progress_nonneg: "0 \<le> progress i count"
  by (simp add: progress_def)

lemma progress_le: "0 < count \<Longrightarrow> i < count \<Longrightarrow> progress i count \<le> 9/10"
  by (simp add: progress_def)

lemma progress_mono: "i \<le> j \<Longrightarrow> progress i count \<le> progress j count"
  by (simp add: progress_def divide_right_mono)

lemma ornaments_data_nth:
  "i < total type count nPhotos \<Longrightarrow>
   ornaments_data type count nPhotos colors scale rnd ! i
     = ornament_item type count colors scale (rnd i) i"
  by (simp add: ornaments_data_def)

text \<open>
  Claim C2. For a count above zero and indices \<open>i \<le> j\<close> below the count, the slot
  generated for index \<open>i\<close> has the formed position
  \<open>(r cos \<theta>, y, r sin \<theta>)\<close> pushed out by the factor of its type, with
  \<open>progress = sqrt ((i+1)/count) * 0.9\<close>, \<open>r = progress * 7.5\<close> and
  \<open>y = 9 - progress * 18\<close>; progress is at least 0, at most 0.9, and does not decrease
  from \<open>i\<close> to \<open>j\<close>. A count of 1 gives progress 0.9, radius 6.75 and height -7.2.
\<close>

theorem formed_progress_layout:
  assumes "0 < count" and "i \<le> j" and "j < count" and "count = total type count nPhotos"
  shows "targetPos (ornaments_data type count nPhotos colors scale rnd ! i)
           = multiplyScalar \<lparr>vx = radius_r i count * cos (theta type i), vy = height_y i count,
                             vz = radius_r i count * sin (theta type i)\<rparr> (pushOut type)
         \<and> progress i count = sqrt ((real i + 1) / real count) * (9/10)
         \<and> radius_r i count = progress i count * (15/2)
         \<and> height_y i count = 9 - progress i count * 18
         \<and> 0 \<le> progress i count
         \<and> progress i count \<le> progress j count
         \<and> progress j count \<le> 9/10
         \<and> progress 0 1 = 9/10 \<and> radius_r 0 1 = 27/4 \<and> height_y 0 1 = - (36/5)"
proof -
  from assms have "i < total type count nPhotos" by simp
  then have pos: "targetPos (ornaments_data type count nPhotos colors scale rnd ! i)
      = multiplyScalar \<lparr>vx = radius_r i count * cos (theta type i), vy = height_y i count,
                        vz = radius_r i count * sin (theta type i)\<rparr> (pushOut type)"
    by (simp add: ornaments_data_nth ornament_item_def tPos_def)
  have defs: "progress i count = sqrt ((real i + 1) / real count) * (9/10)
      \<and> radius_r i count = progress i count * (15/2)
      \<and> height_y i count = 9 - progress i count * 18"
    by (simp add: progress_def radius_r_def height_y_def treeRadiusBase_def apexY_def treeHeight_def)
  have one: "progress 0 1 = 9/10 \<and> radius_r 0 1 = 27/4 \<and> height_y 0 1 = - (36/5)"
    by (simp add: progress_def radius_r_def height_y_def treeRadiusBase_def apexY_def treeHeight_def)
  from pos defs one progress_nonneg [of i count] progress_mono [OF assms(2), of count]
    progress_le [OF assms(1) assms(3)]
  show ?thesis by blast
qed

theorem formed_progress_layout_witness:
  "targetPos (ornaments_data BALL 2 0 None 1 same_draws ! 0)
           = multiplyScalar \<lparr>vx = radius_r 0 2 * cos (theta BALL 0), vy = height_y 0 2,
                             vz = radius_r 0 2 * sin (theta BALL 0)\<rparr> (pushOut BALL)
   \<and> 0 \<le> progress 0 2 \<and> progress 0 2 \<le> progress 1 2 \<and> progress 1 2 \<le> 9/10
   \<and> progress 1 2 = 9/10"
proof -
  have t: "(2::nat) = total BALL 2 0" by (simp add: total_def)
  have "progress 1 2 = 9/10" by (simp add: progress_def)
  with formed_progress_layout [of 2 0 1 BALL 0 None 1 same_draws, OF _ _ _ t]
  show ?thesis by simp
qed

subsection \<open>Determinism of the layout\<close>

text \<open>
  Claim C3, as stated, fails: two evaluations of the layout for the same index, type and
  count that draw different random numbers give different rotations.
\<close>

theorem layout_random_counterexample:
  "rotation (ornament_item BALL 1 None 1 draws_a 0) \<noteq> rotation (ornament_item BALL 1 None 1 draws_b 0)"
  by (simp add: ornament_item_def draws_a_def draws_b_def)

text \<open>
  Claim C3, amended. The formed position of every slot is a function of the index, the
  type and the count alone, and so are the chaos position and the chaos tilt of a photo
  slot: they do not depend on the random draws, on the palette or on the scale prop.
  The whole list of formed positions is the same for any two evaluations.
\<close>

theorem layout_formed_deterministic:
  "targetPos (ornament_item type count colors scale d i)
     = targetPos (ornament_item type count colors' scale' d' i)
   \<and> chaosPos (ornament_item PHOTO count colors scale d i)
     = chaosPos (ornament_item PHOTO count colors' scale' d' i)
   \<and> chaosTilt (ornament_item type count colors scale d i)
     = chaosTilt (ornament_item type count colors' scale' d' i)
   \<and> map targetPos (ornaments_data type count nPhotos colors scale rnd)
     = map targetPos (ornaments_data type count nPhotos colors' scale' rnd')"
  by (simp add: ornament_item_def cPos_def ornaments_data_def)

subsection \<open>The mix transition and the composed position\<close>

text \<open>
  Claim C1, as stated, fails: a ball whose mix is 0 and whose target is 1 moves in a frame
  of 0.1 s to 0.09, not to the 0.2 that a speed of 2.0 per second gives.
\<close>

theorem ornament_speed_counterexample:
  "currentMix (OrnamentMesh_useFrame True ball_item 1 BALL (1/10) (OrnamentMesh_mount ball_item 0))
     \<noteq> currentMix (OrnamentMesh_mount ball_item 0)
         + (1 - currentMix (OrnamentMesh_mount ball_item 0)) * clamp (2.0 * (1/10)) 0 1"
  by (simp add: OrnamentMesh_useFrame_def OrnamentMesh_mount_def lerp_def clamp_def Let_def)

text \<open>
  Claim C1, amended. On every frame in which the refs are attached, each primitive
  advances its mix by \<open>current + (target - current) * clamp (k * \<Delta>t) 0 1\<close>, where
  \<open>k\<close> is 0.9 per second for balls, stars, candy canes, crystals and gift boxes, 0.8 per
  second for photo frames, and 2.0 per second for the spiral lights.
\<close>

theorem mix_transition_rule:
  "currentMix (OrnamentMesh_useFrame True item mixFactor type delta st)
     = currentMix st + (mixFactor - currentMix st) * clamp (9/10 * delta) 0 1
   \<and> currentMix (GiftBoxMesh_useFrame True item mixFactor delta st)
     = currentMix st + (mixFactor - currentMix st) * clamp (9/10 * delta) 0 1
   \<and> currentMix (PhotoFrameMesh_useFrame True photoMat env item mixFactor delta pst)
     = currentMix pst + (mixFactor - currentMix pst) * clamp (8/10 * delta) 0 1
   \<and> SpiralLights_useFrame True mixFactor delta cur
     = cur + (mixFactor - cur) * clamp (2 * delta) 0 1"
  by (simp add: OrnamentMesh_useFrame_def GiftBoxMesh_useFrame_def PhotoFrameMesh_useFrame_def
      SpiralLights_useFrame_def lerp_def Let_def)

text \<open>
  Claim C4. After every frame in which the refs are attached, the position of a ball,
  star, candy cane, crystal or gift box is the interpolation between its chaos and formed
  positions at \<open>smooth t = t\<^sup>2 (3 - 2 t)\<close>, and the position of a photo frame is the
  interpolation at \<open>t powr 0.6\<close>, where \<open>t\<close> is the mix of that frame.
\<close>

theorem composed_position:
  "position (OrnamentMesh_useFrame True item mixFactor type delta st)
     = lerpVectors (chaosPos item) (targetPos item)
         (smooth (currentMix (OrnamentMesh_useFrame True item mixFactor type delta st)))
   \<and> position (GiftBoxMesh_useFrame True item mixFactor delta st)
     = lerpVectors (chaosPos item) (targetPos item)
         (smooth (currentMix (GiftBoxMesh_useFrame True item mixFactor delta st)))
   \<and> position (PhotoFrameMesh_useFrame True photoMat env item mixFactor delta pst)
     = lerpVectors (chaosPos item) (targetPos item)
         (currentMix (PhotoFrameMesh_useFrame True photoMat env item mixFactor delta pst) powr (6/10))
   \<and> smooth t = t\<^sup>2 * (3 - 2 * t)
   \<and> lerpVectors a b u = \<lparr>vx = vx a + (vx b - vx a) * u, vy = vy a + (vy b - vy a) * u,
                           vz = vz a + (vz b - vz a) * u\<rparr>"
  by (simp add: OrnamentMesh_useFrame_def GiftBoxMesh_useFrame_def PhotoFrameMesh_useFrame_def
      Let_def smooth_def power2_eq_square lerpVectors_def)

subsection \<open>Orientation\<close>

lemma clamp_unit: "0 \<le> clamp t 0 1 \<and> clamp t 0 1 \<le> 1"
  by (simp add: clamp_def)

lemma lerp_unit:
  assumes "0 \<le> a" "a \<le> 1" "0 \<le> b" "b \<le> 1"
  shows "0 \<le> lerp a b t \<and> lerp a b t \<le> 1"
proof -
  define c where "c = clamp t 0 1"
  have c: "0 \<le> c" "c \<le> 1" using clamp_unit [of t] by (simp_all add: c_def)
  have eq: "lerp a b t = (1 - c) * a + c * b"
    by (simp add: lerp_def c_def algebra_simps)
  have lo: "0 \<le> (1 - c) * a + c * b"
    using c assms by (intro add_nonneg_nonneg mult_nonneg_nonneg) simp_all
  have "(1 - c) * a \<le> (1 - c) * 1" using c assms by (intro mult_left_mono) simp_all
  moreover have "c * b \<le> c * 1" using c assms by (intro mult_left_mono) simp_all
  ultimately have hi: "(1 - c) * a + c * b \<le> 1" by simp
  from eq lo hi show ?thesis by simp
qed

lemma smooth_half:
  assumes "0 \<le> m" "m \<le> 1"
  shows "(smooth m < 1/2) = (m < 1/2)"
proof -
  have eq: "smooth m - 1/2 = (2 * m - 1) * (1/2 + m * (1 - m))"
    by (simp add: smooth_def algebra_simps)
  have "0 \<le> m * (1 - m)" using assms by (intro mult_nonneg_nonneg) simp_all
  then have pos: "0 < 1/2 + m * (1 - m)" by simp
  have "(smooth m < 1/2) = ((2 * m - 1) * (1/2 + m * (1 - m)) < 0)"
    using eq by linarith
  also have "\<dots> = (2 * m - 1 < 0)"
    using pos by (simp add: mult_less_0_iff not_less [symmetric] less_imp_le)
  also have "\<dots> = (m < 1/2)" by auto
  finally show ?thesis .
qed

text \<open>
  Claim C5, as stated, fails: a star whose mix is 0.75, which is not above 0.8, is already
  turned to the vertical axis, because the source compares the eased value
  \<open>smooth 0.75 = 0.84375\<close> with 0.8.
\<close>

theorem star_billboard_counterexample:
  "currentMix (OrnamentMesh_useFrame True star_item 1 STAR (5/6) (OrnamentMesh_mount star_item 0))
     = 3/4
   \<and> \<not> (3/4 > (0.8::real))
   \<and> orient (OrnamentMesh_useFrame True star_item 1 STAR (5/6) (OrnamentMesh_mount star_item 0))
     = LookAtRotateZ
         \<lparr>vx = 0,
          vy = vy (position (OrnamentMesh_useFrame True star_item 1 STAR (5/6)
                     (OrnamentMesh_mount star_item 0))),
          vz = 0\<rparr> (pi / 2)"
  by (simp add: OrnamentMesh_useFrame_def OrnamentMesh_mount_def lerp_def clamp_def Let_def
      smooth_def)

text \<open>
  Claim C5, amended. The thresholds are compared with the eased value \<open>e\<close> of the frame:
  \<open>e = smooth t\<close> for balls, stars, candy canes, crystals and gift boxes and
  \<open>e = t powr 0.6\<close> for photo frames, where \<open>t\<close> is the mix of the frame.
  A star with \<open>e > 0.8\<close> looks at the vertical axis at its own height and is then turned
  by a quarter turn about Z; a crystal with \<open>e > 0.8\<close> looks at that axis; every other
  ornament and every gift box has the slot's rotation, with \<open>\<Delta>t * 0.5\<close> added to its x
  and y angles exactly when \<open>e < 0.5\<close>, which for a mix and a target in [0, 1] is exactly
  when \<open>t < 0.5\<close>. A photo frame with \<open>e > 0.8\<close> looks at the vertical axis and is
  turned by a half turn about Y, and its tilt moves towards 0 at the photo speed 0.8;
  otherwise it looks at the camera and its tilt moves towards the chaos tilt at that speed.
\<close>

theorem orientation_rules:
  assumes "0 \<le> currentMix st" "currentMix st \<le> 1" "0 \<le> mixFactor" "mixFactor \<le> 1"
  shows
  "orient (OrnamentMesh_useFrame True item mixFactor type delta st)
     = (if type = STAR
           \<and> smooth (currentMix (OrnamentMesh_useFrame True item mixFactor type delta st)) > 8/10
        then LookAtRotateZ
               \<lparr>vx = 0, vy = vy (position (OrnamentMesh_useFrame True item mixFactor type delta st)),
                vz = 0\<rparr> (pi / 2)
        else if type = CRYSTAL
           \<and> smooth (currentMix (OrnamentMesh_useFrame True item mixFactor type delta st)) > 8/10
        then LookAt
               \<lparr>vx = 0, vy = vy (position (OrnamentMesh_useFrame True item mixFactor type delta st)),
                vz = 0\<rparr>
        else if currentMix (OrnamentMesh_useFrame True item mixFactor type delta st) < 1/2
        then EulerRotation \<lparr>ex = ex (rotation item) + delta * (1/2),
                             ey = ey (rotation item) + delta * (1/2), ez = ez (rotation item)\<rparr>
        else EulerRotation (rotation item))
   \<and> orient (GiftBoxMesh_useFrame True item mixFactor delta st)
     = (if currentMix (GiftBoxMesh_useFrame True item mixFactor delta st) < 1/2
        then EulerRotation \<lparr>ex = ex (rotation item) + delta * (1/2),
                             ey = ey (rotation item) + delta * (1/2), ez = ez (rotation item)\<rparr>
        else EulerRotation (rotation item))
   \<and> (smooth (currentMix (OrnamentMesh_useFrame True item mixFactor type delta st)) < 1/2)
     = (currentMix (OrnamentMesh_useFrame True item mixFactor type delta st) < 1/2)
   \<and> orient (PhotoFrameMesh_useFrame True photoMat env item mixFactor delta pst)
     = (if currentMix (PhotoFrameMesh_useFrame True photoMat env item mixFactor delta pst)
             powr (6/10) > 8/10
        then LookAtRotateY
               \<lparr>vx = 0,
                vy = vy (position (PhotoFrameMesh_useFrame True photoMat env item mixFactor delta pst)),
                vz = 0\<rparr> pi
        else LookAt (camera_position env))
   \<and> innerRotZ (PhotoFrameMesh_useFrame True photoMat env item mixFactor delta pst)
     = (if currentMix (PhotoFrameMesh_useFrame True photoMat env item mixFactor delta pst)
             powr (6/10) > 8/10
        then lerp (innerRotZ pst) 0 (8/10 * delta)
        else lerp (innerRotZ pst) (chaosTilt item) (8/10 * delta))"
proof -
  define cm where "cm = lerp (currentMix st) mixFactor (9/10 * delta)"
  have cm_unit: "0 \<le> cm \<and> cm \<le> 1"
    unfolding cm_def using assms by (intro lerp_unit)
  then have half: "(smooth cm < 1/2) = (cm < 1/2)"
    by (intro smooth_half) simp_all
  have o_mix: "currentMix (OrnamentMesh_useFrame True item mixFactor type delta st) = cm"
    by (simp add: OrnamentMesh_useFrame_def Let_def cm_def)
  have g_mix: "currentMix (GiftBoxMesh_useFrame True item mixFactor delta st) = cm"
    by (simp add: GiftBoxMesh_useFrame_def Let_def cm_def)
  have o: "orient (OrnamentMesh_useFrame True item mixFactor type delta st)
     = (if type = STAR \<and> smooth cm > 8/10
        then LookAtRotateZ
               \<lparr>vx = 0, vy = vy (position (OrnamentMesh_useFrame True item mixFactor type delta st)),
                vz = 0\<rparr> (pi / 2)
        else if type = CRYSTAL \<and> smooth cm > 8/10
        then LookAt
               \<lparr>vx = 0, vy = vy (position (OrnamentMesh_useFrame True item mixFactor type delta st)),
                vz = 0\<rparr>
        else if cm < 1/2
        then EulerRotation \<lparr>ex = ex (rotation item) + delta * (1/2),
                             ey = ey (rotation item) + delta * (1/2), ez = ez (rotation item)\<rparr>
        else EulerRotation (rotation item))"
    using half by (simp add: OrnamentMesh_useFrame_def Let_def cm_def tumble_def)
  have g: "orient (GiftBoxMesh_useFrame True item mixFactor delta st)
     = (if cm < 1/2
        then EulerRotation \<lparr>ex = ex (rotation item) + delta * (1/2),
                             ey = ey (rotation item) + delta * (1/2), ez = ez (rotation item)\<rparr>
        else EulerRotation (rotation item))"
    using half by (simp add: GiftBoxMesh_useFrame_def Let_def cm_def tumble_def)
  have p: "orient (PhotoFrameMesh_useFrame True photoMat env item mixFactor delta pst)
     = (if currentMix (PhotoFrameMesh_useFrame True photoMat env item mixFactor delta pst)
             powr (6/10) > 8/10
        then LookAtRotateY
               \<lparr>vx = 0,
                vy = vy (position (PhotoFrameMesh_useFrame True photoMat env item mixFactor delta pst)),
                vz = 0\<rparr> pi
        else LookAt (camera_position env))"
    by (simp add: PhotoFrameMesh_useFrame_def Let_def)
  have z: "innerRotZ (PhotoFrameMesh_useFrame True photoMat env item mixFactor delta pst)
     = (if currentMix (PhotoFrameMesh_useFrame True photoMat env item mixFactor delta pst)
             powr (6/10) > 8/10
        then lerp (innerRotZ pst) 0 (8/10 * delta)
        else lerp (innerRotZ pst) (chaosTilt item) (8/10 * delta))"
    by (simp add: PhotoFrameMesh_useFrame_def Let_def)
  from o g half p z show ?thesis unfolding o_mix g_mix by blast
qed

theorem orientation_rules_witness:
  "0 \<le> currentMix (OrnamentMesh_mount ball_item 0) \<and> currentMix (OrnamentMesh_mount ball_item 0) \<le> 1
   \<and> (0::real) \<le> 1
   \<and> orient (OrnamentMesh_useFrame True ball_item 1 BALL (1/10) (OrnamentMesh_mount ball_item 0))
     = EulerRotation \<lparr>ex = 1/20, ey = 1/20, ez = 0\<rparr>
   \<and> orient (PhotoFrameMesh_useFrame True True desktop_env photo_item 1 (1/10) (PhotoFrameMesh_mount 1))
     = LookAtRotateY \<lparr>vx = 0, vy = - (207/25), vz = 0\<rparr> pi"
proof -
  have h: "0 \<le> currentMix (OrnamentMesh_mount ball_item 0)"
    "currentMix (OrnamentMesh_mount ball_item 0) \<le> 1" "(0::real) \<le> 1" "(1::real) \<le> 1"
    by (simp_all add: OrnamentMesh_mount_def Let_def)
  have m: "currentMix (OrnamentMesh_useFrame True ball_item 1 BALL (1/10) (OrnamentMesh_mount ball_item 0))
      = 9/100"
    by (simp add: OrnamentMesh_useFrame_def OrnamentMesh_mount_def lerp_def clamp_def Let_def)
  have r: "rotation ball_item = \<lparr>ex = 0, ey = 0, ez = 0\<rparr>"
    by (simp add: ball_item_def ornament_item_def draws_a_def)
  have pm: "currentMix (PhotoFrameMesh_useFrame True True desktop_env photo_item 1 (1/10)
      (PhotoFrameMesh_mount 1)) = 1"
    by (simp add: PhotoFrameMesh_useFrame_def PhotoFrameMesh_mount_def lerp_def Let_def)
  have pp: "vy (position (PhotoFrameMesh_useFrame True True desktop_env photo_item 1 (1/10)
      (PhotoFrameMesh_mount 1))) = - (207/25)"
    by (simp add: PhotoFrameMesh_useFrame_def PhotoFrameMesh_mount_def lerp_def Let_def
        lerpVectors_def photo_item_def ornament_item_def tPos_def multiplyScalar_def pushOut_def
        height_y_def progress_def apexY_def treeHeight_def)
  from orientation_rules [OF h(1) h(2) h(3) h(4), where item = ball_item and type = BALL
      and delta = "1/10" and photoMat = True and env = desktop_env and pst = "PhotoFrameMesh_mount 1"]
  have a: "orient (OrnamentMesh_useFrame True ball_item 1 BALL (1/10) (OrnamentMesh_mount ball_item 0))
      = EulerRotation \<lparr>ex = 1/20, ey = 1/20, ez = 0\<rparr>"
    by (simp add: m r)
  from orientation_rules [OF h(1) h(2) h(3) h(4), where item = photo_item and type = BALL
      and delta = "1/10" and photoMat = True and env = desktop_env and pst = "PhotoFrameMesh_mount 1"]
  have b: "orient (PhotoFrameMesh_useFrame True True desktop_env photo_item 1 (1/10) (PhotoFrameMesh_mount 1))
     = LookAtRotateY \<lparr>vx = 0, vy = - (207/25), vz = 0\<rparr> pi"
    by (simp add: pm pp)
  from h a b show ?thesis by simp
qed

subsection \<open>The initial mix\<close>



subsection \<open>The focus gate\<close>

text \<open>
  Claim C7, as stated, fails: the click is gated on the target, not on the mix. A photo
  frame whose mix is 74/75 (one frame after its mount, the target being 0) accepts the
  click and reports it to the host.
\<close>

theorem focus_gate_counterexample:
  "\<not> currentMix (PhotoFrameMesh_useFrame True True desktop_env photo_item 0 (1/60)
        (PhotoFrameMesh_mount 0)) < 0.25
   \<and> photo_click True (Some card_entry) 0 (Some \<lparr>vx = 1, vy = 2, vz = 3\<rparr>) flat_project 800 600 10 20
       \<noteq> None"
  by (simp add: PhotoFrameMesh_mount_def PhotoFrameMesh_useFrame_def lerp_def clamp_def Let_def
      photo_click_def PhotoFrameMesh_onPointerDown_def emitFocus_def)

text \<open>
  Claim C7, amended. A click on a photo frame reaches the host callback exactly when the
  frame has an entry, the host supplied a callback and the target \<^verbatim>\<open>mixFactor\<close> is below
  0.25, whatever the interpolated mix is. The origin reported is the projection of the
  group's world position, \<open>((x * 0.5 + 0.5) * innerWidth, (y * (-0.5) + 0.5) * innerHeight)\<close>,
  when the group is attached, and the pointer's client coordinates otherwise.
\<close>

theorem focus_gate:
  "photo_click onFocusMedia entry mixFactor groupWorld project innerWidth innerHeight clientX clientY
     = (case entry of
          None \<Rightarrow> None
        | Some e \<Rightarrow>
            if onFocusMedia \<and> mixFactor < 1/4 then
              Some (\<lparr>fm_kind = pe_kind e, fm_url = pe_url e, fm_message = pe_message e,
                     fm_signature = pe_signatureText e, fm_id = pe_id e,
                     fm_cacheKey = pe_cacheKey e, fm_editable = pe_editable e\<rparr>,
                    Some (case groupWorld of
                            Some worldVec \<Rightarrow>
                              \<lparr>screen_x = (vx (project worldVec) * (1/2) + 1/2) * innerWidth,
                               screen_y = (vy (project worldVec) * (- (1/2)) + 1/2) * innerHeight\<rparr>
                          | None \<Rightarrow> \<lparr>screen_x = clientX, screen_y = clientY\<rparr>))
            else None)"
  by (simp add: photo_click_def PhotoFrameMesh_onPointerDown_def emitFocus_def Let_def
      split: option.splits)

subsection \<open>Failing loads\<close>

lemma load_never_throws: "\<exists>r. load env url transform cancelled = Inr r"
  by (simp add: load_def load_catch_def split: sum.splits)

text \<open>
  Claim C9. The load of a photo texture never ends in an exception, whatever the network
  and the decoder do. When the image of an entry cannot be loaded or decoded and the load
  has not been cancelled, the texture becomes the generated placeholder and the entry is
  rendered as a photo frame with it.
\<close>

theorem load_failure_fallback:
  assumes "loadImageElement env url = Inl err" and "\<not> cancelled"
  shows "load env url transform cancelled
           = Inr (Some (createFallbackTexture (canvas_ctx env) fallback_label))
    \<and> usePhotoTexture env url transform cancelled
           = Some (createFallbackTexture (canvas_ctx env) fallback_label)
    \<and> UserPhotoOrnament env url transform cancelled
           = Some (PhotoFrame (createFallbackTexture (canvas_ctx env) fallback_label))
    \<and> (\<forall>env' url' transform' cancelled'. \<exists>r. load env' url' transform' cancelled' = Inr r)"
proof -
  from assms have l: "load env url transform cancelled
      = Inr (Some (createFallbackTexture (canvas_ctx env) fallback_label))"
    by (simp add: load_def load_try_def load_catch_def)
  then have u: "usePhotoTexture env url transform cancelled
      = Some (createFallbackTexture (canvas_ctx env) fallback_label)"
    by (simp add: usePhotoTexture_def)
  then have r: "UserPhotoOrnament env url transform cancelled
      = Some (PhotoFrame (createFallbackTexture (canvas_ctx env) fallback_label))"
    by (simp add: UserPhotoOrnament_def)
  from l u r load_never_throws show ?thesis by blast
qed

theorem load_failure_fallback_witness:
  "loadImageElement env_404 ''https://example.org/a.png'' = Inl (FetchStatus 404)
   \<and> UserPhotoOrnament env_404 ''https://example.org/a.png'' None False
       = Some (PhotoFrame \<lparr>tex_width = 512, tex_height = 640, tex_content = Label fallback_label\<rparr>)"
proof -
  have f: "loadImageElement env_404 ''https://example.org/a.png'' = Inl (FetchStatus 404)"
    by (simp add: loadImageElement_def env_404_def)
  have c: "\<not> False" by simp
  have "canvas_ctx env_404" by (simp add: env_404_def)
  with load_failure_fallback [OF f c, of None] f show ?thesis
    by (simp add: createFallbackTexture_def)
qed

subsection \<open>The limit of the image cache\<close>

lemma store_put_keys: "fst ` set (store_put k v s) = insert k (fst ` set s)"
proof (induction s)
  case Nil
  show ?case by simp
next
  case (Cons p s)
  obtain k' v' where "p = (k', v')" by (cases p)
  with Cons show ?case
    by (cases "k < k'"; cases "k = k'") (simp_all add: insert_commute)
qed

lemma store_put_sorted:
  "sorted_wrt (<) (map fst s) \<Longrightarrow> sorted_wrt (<) (map fst (store_put k v s))"
proof (induction s)
  case Nil
  then show ?case by simp
next
  case (Cons p s)
  obtain k' v' where p: "p = (k', v')" by (cases p)
  from Cons.prems have tl: "sorted_wrt (<) (map fst s)" and hd: "\<forall>x\<in>fst ` set s. k' < x"
    by (auto simp: p)
  show ?case
  proof (cases "k < k'")
    case True
    with Cons.prems hd show ?thesis by (auto simp: p)
  next
    case False
    show ?thesis
    proof (cases "k = k'")
      case True
      with Cons.prems show ?thesis by (simp add: p)
    next
      case ne: False
      with False have "k' < k" by simp
      with hd have "\<forall>x\<in>fst ` set (store_put k v s). k' < x"
        by (simp add: store_put_keys)
      with Cons.IH [OF tl] False ne show ?thesis by (simp add: p)
    qed
  qed
qed

lemma put_files_sorted:
  "sorted_wrt (<) (map fst s) \<Longrightarrow> put_files env ts idx files s = Inr s1
     \<Longrightarrow> sorted_wrt (<) (map fst s1)"
proof (induction files arbitrary: idx s)
  case Nil
  then show ?case by simp
next
  case (Cons f files)
  from Cons.prems(2) have ok: "put_ok env idx"
    by (simp split: if_splits)
  with Cons.prems(2) have
    "put_files env ts (Suc idx) files
       (store_put (image_key ts idx (random_hex env idx))
          \<lparr>blob = f, createdAt = int ts + int idx\<rparr> s) = Inr s1"
    by simp
  with Cons.IH store_put_sorted [OF Cons.prems(1)] show ?case by blast
qed

lemma deleteKeys_Inr: "deleteKeys env keys s = Inr s2 \<Longrightarrow> s2 = store_delete_keys keys s"
  by (auto simp: deleteKeys_def store_delete_keys_def split: if_splits)

lemma slice_nonneg: "0 \<le> n \<Longrightarrow> slice_from n xs = drop (nat n) xs \<and> slice_to n xs = take (nat n) xs"
  by (simp add: slice_from_def slice_to_def)

lemma sort_newest_first_props:
  "set (sort_newest_first xs) = set xs
   \<and> length (sort_newest_first xs) = length xs
   \<and> distinct (sort_newest_first xs) = distinct xs
   \<and> sorted_wrt (\<lambda>a b. createdAt (snd b) \<le> createdAt (snd a)) (sort_newest_first xs)"
proof -
  have "sorted (map (\<lambda>r. - createdAt (snd r)) (sort_newest_first xs))"
    by (simp add: sort_newest_first_def)
  then have "sorted_wrt (\<lambda>a b. createdAt (snd b) \<le> createdAt (snd a)) (sort_newest_first xs)"
    by (simp add: sorted_map)
  then show ?thesis by (simp add: sort_newest_first_def)
qed

text \<open>Deleting the keys of a suffix of a list with distinct keys leaves the prefix.\<close>

lemma delete_suffix_keys:
  assumes dk: "distinct (map fst all)" and perm: "set ys = set all" "distinct ys"
  shows "set (store_delete_keys (map fst (drop n ys)) all) = set (take n ys)"
proof -
  have inj: "inj_on fst (set all)" using dk by (simp add: distinct_map)
  have split: "set all = set (take n ys) \<union> set (drop n ys)"
    using perm(1) set_append [of "take n ys" "drop n ys"] by simp
  have disj: "set (take n ys) \<inter> set (drop n ys) = {}"
    using perm(2) distinct_append [of "take n ys" "drop n ys"] by simp
  show ?thesis
  proof (rule set_eqI)
    fix r
    show "r \<in> set (store_delete_keys (map fst (drop n ys)) all) \<longleftrightarrow> r \<in> set (take n ys)"
    proof
      assume "r \<in> set (store_delete_keys (map fst (drop n ys)) all)"
      then have "r \<in> set all" and "fst r \<notin> fst ` set (drop n ys)"
        by (auto simp: store_delete_keys_def)
      with split show "r \<in> set (take n ys)" by auto
    next
      assume r: "r \<in> set (take n ys)"
      with split have ra: "r \<in> set all" by simp
      have "fst r \<notin> fst ` set (drop n ys)"
      proof
        assume "fst r \<in> fst ` set (drop n ys)"
        then obtain d where d: "d \<in> set (drop n ys)" "fst d = fst r" by auto
        with split have "d \<in> set all" by simp
        with inj ra d(2) have "d = r" by (auto dest: inj_onD)
        with d(1) r disj show False by auto
      qed
      with ra show "r \<in> set (store_delete_keys (map fst (drop n ys)) all)"
        by (simp add: store_delete_keys_def)
    qed
  qed
qed

lemma store_delete_keys_sorted:
  "sorted_wrt (<) (map fst s) \<Longrightarrow> sorted_wrt (<) (map fst (store_delete_keys keys s))"
  by (induction s) (auto simp: store_delete_keys_def)

text \<open>
  Claim C10, as stated, fails: with no files the function resolves at once with the empty
  list and leaves a cache of two records as it is, whatever the limit.
\<close>

theorem cache_limit_counterexample:
  "saveImagesToCacheWithKeys cache_env [] 1 cache_two = (cache_two, Inr [])
   \<and> \<not> int (length cache_two) \<le> 1"
  by (simp add: saveImagesToCacheWithKeys_def cache_two_def)

text \<open>
  Claim C10, amended. When \<^verbatim>\<open>saveImagesToCacheWithKeys\<close> is called with at least one
  file and a limit that is not negative, and resolves, then the cache, which holds the
  records \<open>all\<close> once the files are written, is left with \<open>min limit (length all)\<close> of
  them, hence at most \<open>limit\<close>; every record left is at least as new as every record
  removed; and the list returned pairs the key of each record left with the object URL of
  its blob, each record once, newest first.
\<close>

theorem cache_limit_newest:
  assumes wf: "sorted_wrt (<) (map fst s)"
    and files: "files \<noteq> []"
    and limit: "0 \<le> limit"
    and puts: "put_files env (now env) 0 files s = Inr all"
    and res: "saveImagesToCacheWithKeys env files limit s = (s', Inr ret)"
  shows "int (length s') \<le> limit
    \<and> length s' = min (nat limit) (length all)
    \<and> set s' \<subseteq> set all
    \<and> (\<forall>r\<in>set s'. \<forall>d\<in>set all - set s'. createdAt (snd d) \<le> createdAt (snd r))
    \<and> (\<exists>recs. ret = map (\<lambda>r. (fst r, createObjectURL env (blob (snd r)))) recs
          \<and> set recs = set s' \<and> distinct recs
          \<and> sorted_wrt (\<lambda>a b. createdAt (snd b) \<le> createdAt (snd a)) recs)
    \<and> sorted_wrt (<) (map fst s')"
proof -
  define sorted where "sorted = sort_newest_first all"
  define kept where "kept = take (nat limit) sorted"
  have wf_all: "sorted_wrt (<) (map fst all)"
    using put_files_sorted [OF wf puts] .
  then have dk: "distinct (map fst all)"
    by (simp add: strict_sorted_iff)
  then have d_all: "distinct all"
    by (simp add: distinct_map)
  have sp: "set sorted = set all" "length sorted = length all" "distinct sorted"
    "sorted_wrt (\<lambda>a b. createdAt (snd b) \<le> createdAt (snd a)) sorted"
    using sort_newest_first_props [of all] d_all by (simp_all add: sorted_def)
  from res files puts have ok: "read_ok env"
    by (auto simp: saveImagesToCacheWithKeys_def getAllRecords_def split: if_splits)
  with res files puts limit obtain s2
    where del: "deleteKeys env (map fst (drop (nat limit) sorted)) all = Inr s2"
      and s': "s' = s2"
      and ret: "ret = map (\<lambda>r. (fst r, createObjectURL env (blob (snd r)))) kept"
    by (auto simp: saveImagesToCacheWithKeys_def getAllRecords_def Let_def sorted_def kept_def
        slice_nonneg split: sum.splits)
  from del s' have s'_eq: "s' = store_delete_keys (map fst (drop (nat limit) sorted)) all"
    by (simp add: deleteKeys_Inr)
  have set_s': "set s' = set kept"
    unfolding s'_eq kept_def using delete_suffix_keys [OF dk sp(1) sp(3)] .
  have d_s': "distinct s'"
    unfolding s'_eq store_delete_keys_def using d_all by simp
  have d_kept: "distinct kept"
    unfolding kept_def using sp(3) by simp
  have "length s' = length kept"
    using set_s' d_s' d_kept by (metis distinct_card)
  then have len: "length s' = min (nat limit) (length all)"
    by (simp add: kept_def sp(2) min.commute)
  with limit have bound: "int (length s') \<le> limit" by simp
  have sub: "set s' \<subseteq> set all"
    unfolding set_s' kept_def using sp(1) set_take_subset [of "nat limit" sorted] by simp
  have "sorted_wrt (\<lambda>a b. createdAt (snd b) \<le> createdAt (snd a))
          (take (nat limit) sorted @ drop (nat limit) sorted)"
    using sp(4) by simp
  then have cross: "\<forall>r\<in>set kept. \<forall>d\<in>set (drop (nat limit) sorted).
      createdAt (snd d) \<le> createdAt (snd r)"
    unfolding sorted_wrt_append kept_def by blast
  have rest: "set all - set s' \<subseteq> set (drop (nat limit) sorted)"
    using sp(1) set_append [of "take (nat limit) sorted" "drop (nat limit) sorted"]
    unfolding set_s' kept_def by auto
  from cross rest have newest:
    "\<forall>r\<in>set s'. \<forall>d\<in>set all - set s'. createdAt (snd d) \<le> createdAt (snd r)"
    unfolding set_s' by blast
  have ord: "sorted_wrt (\<lambda>a b. createdAt (snd b) \<le> createdAt (snd a)) kept"
    unfolding kept_def using sp(4) by (rule sorted_wrt_take)
  from ret set_s' d_kept ord have ex:
    "\<exists>recs. ret = map (\<lambda>r. (fst r, createObjectURL env (blob (snd r)))) recs
        \<and> set recs = set s' \<and> distinct recs
        \<and> sorted_wrt (\<lambda>a b. createdAt (snd b) \<le> createdAt (snd a)) recs"
    by blast
  have wf': "sorted_wrt (<) (map fst s')"
    unfolding s'_eq using wf_all by (rule store_delete_keys_sorted)
  from bound len sub newest ex wf' show ?thesis by blast
qed

theorem cache_limit_newest_witness:
  "sorted_wrt (<) (map fst cache_two) \<and> [''new''] \<noteq> ([]::string list) \<and> (0::int) \<le> 2
   \<and> saveImagesToCacheWithKeys cache_env [''new''] 2 cache_two =
       ([(''1600-0-9e'', \<lparr>blob = ''mid'', createdAt = 1600\<rparr>),
         (''1700-0-a3f'', \<lparr>blob = ''new'', createdAt = 1700\<rparr>)],
        Inr [(''1700-0-a3f'', ''blob:new''), (''1600-0-9e'', ''blob:mid'')])
   \<and> int (length [(''1600-0-9e'', \<lparr>blob = ''mid'', createdAt = 1600\<rparr>),
         (''1700-0-a3f'', \<lparr>blob = ''new'', createdAt = (1700::int)\<rparr>)]) \<le> 2"
proof -
  have wf: "sorted_wrt (<) (map fst cache_two)" by code_simp
  have files: "[''new''] \<noteq> ([]::string list)" by simp
  have limit: "(0::int) \<le> 2" by simp
  have puts: "put_files cache_env (now cache_env) 0 [''new''] cache_two =
      Inr [(''1500-0-c1'', \<lparr>blob = ''old'', createdAt = 1500\<rparr>),
           (''1600-0-9e'', \<lparr>blob = ''mid'', createdAt = 1600\<rparr>),
           (''1700-0-a3f'', \<lparr>blob = ''new'', createdAt = 1700\<rparr>)]"
    by code_simp
  have res: "saveImagesToCacheWithKeys cache_env [''new''] 2 cache_two =
       ([(''1600-0-9e'', \<lparr>blob = ''mid'', createdAt = 1600\<rparr>),
         (''1700-0-a3f'', \<lparr>blob = ''new'', createdAt = 1700\<rparr>)],
        Inr [(''1700-0-a3f'', ''blob:new''), (''1600-0-9e'', ''blob:mid'')])"
    by code_simp
  from cache_limit_newest [OF wf files limit puts res] wf files limit res
  show ?thesis by blast
qed

end
